theory Spec2Isabelle
  imports Main "HOL-Library.AList"
begin

section \<open>JavaScript values as the routes use them\<close>

text \<open>
  The dashboard's server side is TypeScript: \<^verbatim>\<open>src/app/api/events/route.ts\<close>,
  \<^verbatim>\<open>src/app/api/instances/graph/route.ts\<close>, \<^verbatim>\<open>src/app/api/instances/drilldown/route.ts\<close>
  and the query client \<^verbatim>\<open>lib/grafana\<close> (\<^verbatim>\<open>src/unnamed/part_000\<close>).

  \<^item> A string is the list of its UTF-16 code units, so that the character classes of the
    regular expressions (\<^verbatim>\<open>\S\<close>, \<^verbatim>\<open>[a-z0-9]\<close>) are the ones of the language.
  \<^item> A number is \<open>Num n\<close>, the double whose value is the integer \<open>n\<close>, or \<open>NaN\<close>.
    Sums, differences and products of \<open>Num\<close> are taken exactly, as doubles do below
    \<open>2^53\<close> (millisecond times, second times and pod counts are far below). Two
    operations of the source leave that range, because the log store stamps lines in
    nanoseconds: \<^verbatim>\<open>parseInt(ts, 10)\<close> and the division by \<^verbatim>\<open>1_000_000\<close>. Both are
    modelled with the rounding of IEEE doubles (nearest, ties to even) written out.
    Digit strings beyond the range of doubles (309 digits and more) are not modelled.
\<close>

type_synonym jsstring = "nat list"

definition ascii :: "string \<Rightarrow> jsstring" where
  "ascii s = map of_char s"

datatype jsnum = Num int | NaN

text \<open>\<^verbatim>\<open>x || 0\<close> on a number: \<open>0\<close> and \<open>NaN\<close> are falsy.\<close>

fun or_zero :: "jsnum option \<Rightarrow> jsnum" where
  "or_zero None = Num 0"
| "or_zero (Some NaN) = Num 0"
| "or_zero (Some (Num n)) = Num n"

fun js_add :: "jsnum \<Rightarrow> jsnum \<Rightarrow> jsnum" where
  "js_add (Num a) (Num b) = Num (a + b)"
| "js_add _ _ = NaN"

fun js_sub :: "jsnum \<Rightarrow> jsnum \<Rightarrow> jsnum" where
  "js_sub (Num a) (Num b) = Num (a - b)"
| "js_sub _ _ = NaN"

text \<open>\<^verbatim>\<open>x > 0\<close>: false for \<open>NaN\<close>.\<close>

fun js_pos :: "jsnum \<Rightarrow> bool" where
  "js_pos (Num n) = (0 < n)"
| "js_pos NaN = False"

subsection \<open>Rounding to doubles\<close>

fun bit_length :: "nat \<Rightarrow> nat" where
  "bit_length n = (if n = 0 then 0 else Suc (bit_length (n div 2)))"

declare bit_length.simps [simp del]

text \<open>The integer nearest to \<open>a / b\<close>, the even one on a tie.\<close>

definition round_half_even :: "nat \<Rightarrow> nat \<Rightarrow> nat" where
  "round_half_even a b =
     (let q = a div b; r = a mod b
      in if b < 2 * r \<or> (2 * r = b \<and> odd q) then q + 1 else q)"

text \<open>The double nearest to a natural number: 53 significant bits are kept.\<close>

definition to_double :: "nat \<Rightarrow> nat" where
  "to_double n = (let e = bit_length n - 53 in round_half_even n (2 ^ e) * 2 ^ e)"

text \<open>
  The quotient \<open>x / d\<close> of two doubles that are positive integers is the double nearest to
  the exact quotient. With \<open>k\<close> the binary exponent of the quotient
  (\<open>2^k \<le> x / d < 2^(k+1)\<close>) and \<open>s = 52 - k\<close>, that double is \<open>m / 2^s\<close> for
  \<open>m\<close> the integer nearest to \<open>x * 2^s / d\<close>. \<^verbatim>\<open>Math.floor\<close> of it is computed below,
  and the ceiling, which the floor of a negative quotient needs.
\<close>

definition quotient_exponent :: "nat \<Rightarrow> nat \<Rightarrow> int" where
  "quotient_exponent x d =
     (let t = int (bit_length x) - int (bit_length d)
      in if d * 2 ^ nat t \<le> x * 2 ^ nat (- t) then t else t - 1)"

definition quotient_significand :: "nat \<Rightarrow> nat \<Rightarrow> nat" where
  "quotient_significand x d =
     (let s = 52 - quotient_exponent x d
      in round_half_even (x * 2 ^ nat s) (d * 2 ^ nat (- s)))"

definition double_quot_floor :: "nat \<Rightarrow> nat \<Rightarrow> nat" where
  "double_quot_floor x d =
     (if x = 0 then 0
      else let s = 52 - quotient_exponent x d
           in (quotient_significand x d * 2 ^ nat (- s)) div 2 ^ nat s)"

definition double_quot_ceil :: "nat \<Rightarrow> nat \<Rightarrow> nat" where
  "double_quot_ceil x d =
     (if x = 0 then 0
      else let s = 52 - quotient_exponent x d
           in (quotient_significand x d * 2 ^ nat (- s) + 2 ^ nat s - 1) div 2 ^ nat s)"

text \<open>\<^verbatim>\<open>Math.floor(x / d)\<close> for a positive integer constant \<open>d\<close>.\<close>

fun floor_div :: "jsnum \<Rightarrow> nat \<Rightarrow> jsnum" where
  "floor_div NaN d = NaN"
| "floor_div (Num i) d =
     (if 0 \<le> i then Num (int (double_quot_floor (nat i) d))
      else Num (- int (double_quot_ceil (nat (- i)) d)))"

subsection \<open>Strings\<close>

text \<open>
  White space as \<^verbatim>\<open>\s\<close> and \<^verbatim>\<open>parseInt\<close> see it: tab, line feed, vertical tab, form
  feed, carriage return, space, no-break space, U+1680, U+2000 to U+200A, U+2028, U+2029,
  U+202F, U+205F, U+3000 and U+FEFF.
\<close>

definition is_space :: "nat \<Rightarrow> bool" where
  "is_space u \<longleftrightarrow>
     (9 \<le> u \<and> u \<le> 13) \<or> u = 32 \<or> u = 160 \<or> u = 5760 \<or> (8192 \<le> u \<and> u \<le> 8202) \<or>
     u = 8232 \<or> u = 8233 \<or> u = 8239 \<or> u = 8287 \<or> u = 12288 \<or> u = 65279"

definition non_space :: "nat \<Rightarrow> bool" where
  "non_space u \<longleftrightarrow> \<not> is_space u"

definition is_digit :: "nat \<Rightarrow> bool" where
  "is_digit u \<longleftrightarrow> 48 \<le> u \<and> u \<le> 57"

definition digits_value :: "jsstring \<Rightarrow> nat" where
  "digits_value ds = foldl (\<lambda>a u. 10 * a + (u - 48)) 0 ds"

text \<open>
  \<^verbatim>\<open>parseInt(s, 10)\<close>: leading white space is skipped, one sign is read, then the longest
  run of decimal digits; no digit gives \<open>NaN\<close>. The integer read is rounded to a double.
\<close>

definition parseInt :: "jsstring \<Rightarrow> jsnum" where
  "parseInt s =
     (let t = dropWhile is_space s;
          neg = (t \<noteq> [] \<and> hd t = 45);
          u = (if t \<noteq> [] \<and> (hd t = 45 \<or> hd t = 43) then tl t else t);
          ds = takeWhile is_digit u
      in if ds = [] then NaN
         else let v = int (to_double (digits_value ds)) in Num (if neg then - v else v))"

text \<open>\<^verbatim>\<open>s.startsWith(p)\<close> with the rest of the string, for the literal parts of a pattern.\<close>

definition strip_prefix :: "jsstring \<Rightarrow> jsstring \<Rightarrow> jsstring option" where
  "strip_prefix p s = (if take (length p) s = p then Some (drop (length p) s) else None)"

text \<open>\<^verbatim>\<open>p || d\<close> on an optional string: a missing and an empty string are falsy.\<close>

definition or_default :: "jsstring option \<Rightarrow> jsstring \<Rightarrow> jsstring" where
  "or_default p d = (case p of None \<Rightarrow> d | Some s \<Rightarrow> if s = [] then d else s)"

subsection \<open>Plain objects used as dictionaries\<close>

text \<open>
  An object literal inherits from \<^verbatim>\<open>Object.prototype\<close>, so \<^verbatim>\<open>obj[k]\<close> finds a value
  (a function, or the prototype itself) under these keys although the object has no such
  entry of its own.
\<close>

definition object_prototype_keys :: "jsstring list" where
  "object_prototype_keys = map ascii
     [''constructor'', ''__defineGetter__'', ''__defineSetter__'', ''hasOwnProperty'',
      ''__lookupGetter__'', ''__lookupSetter__'', ''isPrototypeOf'', ''propertyIsEnumerable'',
      ''toString'', ''valueOf'', ''__proto__'', ''toLocaleString'']"

text \<open>
  \<^verbatim>\<open>Object.entries\<close> lists the keys that are array indices first, in ascending
  numeric order, then the other keys in insertion order. A dictionary is kept as an
  association list in insertion order.
\<close>

definition is_index_key :: "jsstring \<Rightarrow> bool" where
  "is_index_key s \<longleftrightarrow>
     s \<noteq> [] \<and> list_all is_digit s \<and> (hd s \<noteq> 48 \<or> length s = 1) \<and> digits_value s < 2 ^ 32 - 1"

definition object_entries :: "(jsstring \<times> 'v) list \<Rightarrow> (jsstring \<times> 'v) list" where
  "object_entries kvs =
     sort_key (\<lambda>kv. digits_value (fst kv)) (filter (\<lambda>kv. is_index_key (fst kv)) kvs) @
     filter (\<lambda>kv. \<not> is_index_key (fst kv)) kvs"

text \<open>The same for keys that are numbers (integers here), which become the index keys
  when they lie in \<open>0 .. 2^32 - 2\<close>.\<close>

definition is_index :: "int \<Rightarrow> bool" where
  "is_index k \<longleftrightarrow> 0 \<le> k \<and> k < 2 ^ 32 - 1"

definition number_entries :: "(int \<times> 'v) list \<Rightarrow> (int \<times> 'v) list" where
  "number_entries kvs =
     sort_key fst (filter (\<lambda>kv. is_index (fst kv)) kvs) @ filter (\<lambda>kv. \<not> is_index (fst kv)) kvs"

section \<open>The query client (lib/grafana)\<close>

text \<open>
  \<^verbatim>\<open>fetch\<close> either rejects (no connection, time-out) or resolves to a response with a
  status code. The body is read only when the status is 2xx: reading it fails
  (\<open>Unreadable\<close>: not JSON, or a JSON value without properties), or it has a \<^verbatim>\<open>status\<close>
  field and, when the store sent one, the list \<^verbatim>\<open>data.result\<close>.
\<close>

datatype 'r body = Unreadable | Body jsstring "'r list option"

datatype 'r reply = Rejected | Response nat "'r body"

datatype failure = Fetch_failed | Body_unreadable | Result_missing | Malformed_URI | Invalid_time

definition res_ok :: "nat \<Rightarrow> bool" where
  "res_ok status \<longleftrightarrow> 200 \<le> status \<and> status \<le> 299"

record prom_result =
  metric :: "(jsstring \<times> jsstring) list"
  samples :: "(int \<times> jsstring) list option"

text \<open>
  \<open>samples\<close> is the field \<^verbatim>\<open>values\<close> of \<^verbatim>\<open>PrometheusResult\<close>: pairs of a time in seconds
  and the sample as a string. The store answers a range query that starts and steps on whole
  seconds, so the times are integers.
\<close>

record prom_request =
  prom_query :: jsstring
  prom_start :: jsnum
  prom_end :: jsnum
  prom_step :: int

definition promQueryRange ::
  "(prom_request \<Rightarrow> prom_result reply) \<Rightarrow> jsstring \<Rightarrow> jsnum \<Rightarrow> jsnum \<Rightarrow> int \<Rightarrow> failure + prom_result list"
where
  "promQueryRange fetch query start end step =
     (case fetch \<lparr>prom_query = query, prom_start = start, prom_end = end, prom_step = step\<rparr> of
        Rejected \<Rightarrow> Inl Fetch_failed
      | Response status b \<Rightarrow>
          if \<not> res_ok status then Inr []
          else (case b of
                  Unreadable \<Rightarrow> Inl Body_unreadable
                | Body st res \<Rightarrow>
                    if st \<noteq> ascii ''success'' then Inr []
                    else (case res of None \<Rightarrow> Inl Result_missing | Some rs \<Rightarrow> Inr rs)))"

definition nowSeconds :: "int \<Rightarrow> jsnum" where
  "nowSeconds now = floor_div (Num now) 1000"

text \<open>
  \<^verbatim>\<open>map[rangeLabel] || 3600\<close>: the table is an object literal, so a label that names a
  property of \<^verbatim>\<open>Object.prototype\<close> finds that property, which is truthy and not a number.
\<close>

datatype range_value = Secs int | Inherited_property

definition range_map :: "(jsstring \<times> int) list" where
  "range_map =
     [(ascii ''1h'', 3600), (ascii ''6h'', 21600), (ascii ''12h'', 43200),
      (ascii ''24h'', 86400), (ascii ''48h'', 172800), (ascii ''7d'', 604800)]"

definition rangeSeconds :: "jsstring \<Rightarrow> range_value" where
  "rangeSeconds rangeLabel =
     (case map_of range_map rangeLabel of
        Some n \<Rightarrow> if n = 0 then Secs 3600 else Secs n
      | None \<Rightarrow> if rangeLabel \<in> set object_prototype_keys then Inherited_property else Secs 3600)"

text \<open>Every comparison of a value that is not a number is false.\<close>

fun stepForRange :: "range_value \<Rightarrow> int" where
  "stepForRange (Secs rangeSecs) =
     (if rangeSecs \<le> 3600 then 60
      else if rangeSecs \<le> 21600 then 300
      else if rangeSecs \<le> 86400 then 600
      else if rangeSecs \<le> 172800 then 1200
      else 3600)"
| "stepForRange Inherited_property = 3600"

text \<open>\<^verbatim>\<open>now - rangeSecs\<close>.\<close>

fun range_start :: "jsnum \<Rightarrow> range_value \<Rightarrow> jsnum" where
  "range_start now (Secs rangeSecs) = js_sub now (Num rangeSecs)"
| "range_start now Inherited_property = NaN"


section \<open>Instance counts: the graph route and the drill-down route\<close>

text \<open>
  A point of a series: \<open>time\<close> in milliseconds and the field \<^verbatim>\<open>value\<close>. A series: its
  \<open>key\<close> (the field \<^verbatim>\<open>namespace\<close> of the graph route, \<^verbatim>\<open>service\<close> of the drill-down
  route) and its \<open>data\<close>.
\<close>

record point =
  time :: int
  pvalue :: jsnum

record series =
  key :: jsstring
  data :: "point list"

record graph_response =
  g_series :: "series list"
  g_range :: jsstring
  g_step :: int

record drilldown_response =
  d_series :: "series list"
  d_namespace :: jsstring
  d_range :: jsstring

text \<open>
  What a handler answers: a JSON body with status 200, the status 400 of the drill-down
  route, or an exception that no handler catches (the framework answers 500).
  \<open>Shared_object_written\<close> is the one way out of this model: the handler has assigned into
  \<^verbatim>\<open>Object.prototype\<close> or one of its methods, objects that the whole process shares, and
  what it and later requests answer is not described here.
\<close>

datatype 'a answer = Ok_200 'a | Bad_request_400 | Unhandled failure | Shared_object_written

definition label :: "prom_result \<Rightarrow> string \<Rightarrow> jsstring" where
  "label r l = or_default (map_of (metric r) (ascii l)) (ascii ''unknown'')"

definition sample_list :: "prom_result \<Rightarrow> (int \<times> jsstring) list" where
  "sample_list r = (case samples r of None \<Rightarrow> [] | Some vs \<Rightarrow> vs)"

definition has_positive :: "series \<Rightarrow> bool" where
  "has_positive s = list_ex (\<lambda>d. js_pos (pvalue d)) (data s)"

subsection \<open>graph/route.ts\<close>

definition graph_query :: jsstring where
  \<open>graph_query = ascii ''sum by (namespace) (kube_pod_info{created_by_kind="ReplicaSet"})''\<close>

definition graph_series :: "prom_result \<Rightarrow> series" where
  "graph_series r =
     \<lparr>key = label r ''namespace'',
      data = map (\<lambda>(ts, val). \<lparr>time = ts * 1000, pvalue = parseInt val\<rparr>) (sample_list r)\<rparr>"

definition graph_GET ::
  "(prom_request \<Rightarrow> prom_result reply) \<Rightarrow> int \<Rightarrow> jsstring option \<Rightarrow> graph_response answer"
where
  "graph_GET fetch date_now range_param =
     (let range = or_default range_param (ascii ''1h'');
          now = nowSeconds date_now;
          rangeSecs = rangeSeconds range;
          start = range_start now rangeSecs;
          step = stepForRange rangeSecs
      in case promQueryRange fetch graph_query start now step of
           Inl e \<Rightarrow> Unhandled e
         | Inr results \<Rightarrow>
             (let series = map graph_series results;
                  nonZero = filter has_positive series
              in Ok_200 \<lparr>g_series = nonZero, g_range = range, g_step = step\<rparr>))"

subsection \<open>drilldown/route.ts\<close>

definition is_lower_alnum :: "nat \<Rightarrow> bool" where
  "is_lower_alnum u \<longleftrightarrow> (97 \<le> u \<and> u \<le> 122) \<or> is_digit u"

text \<open>
  \<^verbatim>\<open>name.replace(/-[a-z0-9]{4,12}$/, '')\<close>: the pattern is tried at each position from
  the left; it matches where a hyphen is followed by 4 to 12 characters of the class and
  then the end of the string.
\<close>

fun stripRsHash :: "jsstring \<Rightarrow> jsstring" where
  "stripRsHash [] = []"
| "stripRsHash (c # cs) =
     (if c = 45 \<and> 4 \<le> length cs \<and> length cs \<le> 12 \<and> list_all is_lower_alnum cs then []
      else c # stripRsHash cs)"

type_synonym tsmap = "(int \<times> jsnum) list"

type_synonym grouped = "(jsstring \<times> tsmap) list"

text \<open>\<^verbatim>\<open>tsMap[ts] = (tsMap[ts] || 0) + parseInt(val, 10)\<close>\<close>

definition add_sample :: "tsmap \<Rightarrow> int \<times> jsstring \<Rightarrow> tsmap" where
  "add_sample m s =
     (case s of (ts, val) \<Rightarrow> AList.update ts (js_add (or_zero (map_of m ts)) (parseInt val)) m)"

text \<open>
  One round of the grouping loop. \<^verbatim>\<open>grouped[deployName]\<close> is truthy when the entry exists
  and also when the name is inherited from \<^verbatim>\<open>Object.prototype\<close>; in the second case no
  entry is made and the samples, if there are any, are assigned into the inherited object.
\<close>

definition group_result :: "grouped \<Rightarrow> prom_result \<Rightarrow> grouped option" where
  "group_result g r =
     (let rsName = label r ''created_by_name'';
          deployName = stripRsHash rsName
      in case map_of g deployName of
           Some m \<Rightarrow> Some (AList.update deployName (foldl add_sample m (sample_list r)) g)
         | None \<Rightarrow>
             if deployName \<in> set object_prototype_keys
             then (if sample_list r = [] then Some g else None)
             else Some (AList.update deployName (foldl add_sample [] (sample_list r)) g))"

fun group_results :: "grouped \<Rightarrow> prom_result list \<Rightarrow> grouped option" where
  "group_results g [] = Some g"
| "group_results g (r # rs) =
     (case group_result g r of None \<Rightarrow> None | Some g' \<Rightarrow> group_results g' rs)"

text \<open>
  The keys of \<^verbatim>\<open>tsMap\<close> are read back with \<^verbatim>\<open>parseInt(ts)\<close>, which returns the integer
  the key was made from; the points are then sorted by time with the stable sort of the
  language.
\<close>

definition drilldown_series :: "jsstring \<times> tsmap \<Rightarrow> series" where
  "drilldown_series e =
     (case e of (service, tsMap) \<Rightarrow>
        \<lparr>key = service,
         data = sort_key time (map (\<lambda>(ts, v). \<lparr>time = ts * 1000, pvalue = v\<rparr>) (number_entries tsMap))\<rparr>)"

definition drilldown_query :: "jsstring \<Rightarrow> jsstring" where
  \<open>drilldown_query namespace =
     ascii ''sum by (created_by_name)(kube_pod_info{namespace="'' @ namespace @
     ascii ''",created_by_kind="ReplicaSet"})''\<close>

definition drilldown_GET ::
  "(prom_request \<Rightarrow> prom_result reply) \<Rightarrow> int \<Rightarrow> jsstring option \<Rightarrow> jsstring option \<Rightarrow>
   drilldown_response answer"
where
  "drilldown_GET fetch date_now namespace_param range_param =
     (let range = or_default range_param (ascii ''6h'')
      in case namespace_param of
           None \<Rightarrow> Bad_request_400
         | Some namespace \<Rightarrow>
             if namespace = [] then Bad_request_400
             else
               (let now = nowSeconds date_now;
                    rangeSecs = rangeSeconds range;
                    start = range_start now rangeSecs;
                    step = stepForRange rangeSecs
                in case promQueryRange fetch (drilldown_query namespace) start now step of
                     Inl e \<Rightarrow> Unhandled e
                   | Inr results \<Rightarrow>
                       (case group_results [] results of
                          None \<Rightarrow> Shared_object_written
                        | Some g \<Rightarrow>
                            Ok_200 \<lparr>d_series = filter has_positive (map drilldown_series (object_entries g)),
                                    d_namespace = namespace, d_range = range\<rparr>)))"


section \<open>Platform events: events/route.ts\<close>

datatype event_kind =
  instance_created | instance_removed | tenant_signup | solution_deployed | solution_destroyed
  | plan_upgrade | plan_downgrade | instance_restarted | other

text \<open>
  \<^verbatim>\<open>PlatformEvent\<close>. Every field carries the prefix \<open>event_\<close>, so that the local variables
  of the source keep their names; the optional field \<^verbatim>\<open>raw\<close> is never set by the route and
  is left out.
\<close>

record PlatformEvent =
  event_id :: jsstring
  event_type :: event_kind
  event_emoji :: jsstring
  event_tenant :: jsstring
  event_description :: jsstring
  event_timestamp :: jsnum

definition makeId :: "jsstring \<Rightarrow> jsstring \<Rightarrow> string \<Rightarrow> jsstring" where
  "makeId ts tenant type = ts @ ascii ''-'' @ tenant @ ascii ''-'' @ ascii type"

text \<open>The glyph literals of the source text, code unit by code unit.\<close>

definition glyph_created :: jsstring where "glyph_created = [287, 376, 353, 8364]"
definition glyph_removed :: jsstring where "glyph_removed = [287, 376, 8212, 8216, 239, 184]"
definition glyph_restarted :: jsstring where "glyph_restarted = [287, 376, 8221, 8222]"
definition glyph_signup :: jsstring where "glyph_signup = [287, 376, 8216, 164]"
definition glyph_deployed :: jsstring where "glyph_deployed = [287, 376, 8221, 167]"
definition glyph_destroyed :: jsstring where "glyph_destroyed = [287, 376, 8217, 163]"

text \<open>The nanosecond stamp of a log line in milliseconds:
  \<^verbatim>\<open>Math.floor(parseInt(ts, 10) / 1_000_000)\<close>.\<close>

definition millis :: "jsstring \<Rightarrow> jsnum" where
  "millis ts = floor_div (parseInt ts) 1000000"

subsection \<open>Pattern matching\<close>

text \<open>
  \<^verbatim>\<open>line.match(/customer=(\S+)/)\<close>, the first group of the leftmost match. \<^verbatim>\<open>\S+\<close> is
  greedy and nothing follows it, so the group is the longest run of characters that are
  not white space.
\<close>

fun match_customer :: "jsstring \<Rightarrow> jsstring option" where
  "match_customer [] = None"
| "match_customer (c # cs) =
     (case strip_prefix (ascii ''customer='') (c # cs) of
        None \<Rightarrow> match_customer cs
      | Some rest \<Rightarrow>
          if takeWhile non_space rest = [] then match_customer cs
          else Some (takeWhile non_space rest))"

text \<open>
  \<^verbatim>\<open>line.match(/action (\S+) on resource (\S+)/)\<close>, both groups of the leftmost match.
  At one starting position the first group can only be the whole run of characters up to
  the next white space, since a space has to follow it.
\<close>

definition action_at :: "jsstring \<Rightarrow> (jsstring \<times> jsstring) option" where
  "action_at s =
     (case strip_prefix (ascii ''action '') s of
        None \<Rightarrow> None
      | Some r1 \<Rightarrow>
          if takeWhile non_space r1 = [] then None
          else (case strip_prefix (ascii '' on resource '') (dropWhile non_space r1) of
                  None \<Rightarrow> None
                | Some r2 \<Rightarrow>
                    if takeWhile non_space r2 = [] then None
                    else Some (takeWhile non_space r1, takeWhile non_space r2)))"

fun match_action :: "jsstring \<Rightarrow> (jsstring \<times> jsstring) option" where
  "match_action [] = None"
| "match_action (c # cs) =
     (case action_at (c # cs) of None \<Rightarrow> match_action cs | Some m \<Rightarrow> Some m)"

text \<open>\<^verbatim>\<open>s.replace(/"+$/, '')\<close>: the double quotes at the end are removed.\<close>

definition strip_quotes :: "jsstring \<Rightarrow> jsstring" where
  "strip_quotes s = rev (dropWhile (\<lambda>c. c = 34) (rev s))"

text \<open>\<^verbatim>\<open>s.split('/')\<close>. The list it returns is never empty, so \<open>hd\<close> of it is
  \<^verbatim>\<open>parts[0]\<close>.\<close>

fun split_slash :: "jsstring \<Rightarrow> jsstring list" where
  "split_slash [] = [[]]"
| "split_slash (c # cs) =
     (if c = 47 then [] # split_slash cs
      else (case split_slash cs of [] \<Rightarrow> [[c]] | p # ps \<Rightarrow> (c # p) # ps))"

text \<open>\<^verbatim>\<open>parts[1] || resource\<close>\<close>

definition second_part :: "jsstring list \<Rightarrow> jsstring \<Rightarrow> jsstring" where
  "second_part parts resource =
     (if 1 < length parts \<and> parts ! 1 \<noteq> [] then parts ! 1 else resource)"

subsection \<open>The audit lines of the GUI\<close>

definition parseGUIAuditLine :: "jsstring \<Rightarrow> jsstring \<Rightarrow> PlatformEvent option" where
  "parseGUIAuditLine ts line =
     (case (match_customer line, match_action line) of
        (Some tenant, Some (action, res)) \<Rightarrow>
          (let resource = strip_quotes res;
               timestamp = millis ts;
               parts = split_slash resource;
               service = hd parts;
               instanceName = second_part parts resource
           in if action = ascii ''create:instance'' then
                Some \<lparr>event_id = makeId ts tenant ''create_instance'', event_type = instance_created,
                      event_emoji = glyph_created, event_tenant = tenant,
                      event_description = tenant @ ascii '' created instance '' @ instanceName @
                                    ascii '' ('' @ service @ ascii '')'',
                      event_timestamp = timestamp\<rparr>
              else if action = ascii ''delete:instance'' then
                Some \<lparr>event_id = makeId ts tenant ''delete_instance'', event_type = instance_removed,
                      event_emoji = glyph_removed, event_tenant = tenant,
                      event_description = tenant @ ascii '' removed instance '' @ instanceName @
                                    ascii '' ('' @ service @ ascii '')'',
                      event_timestamp = timestamp\<rparr>
              else if action = ascii ''restart:instance'' then
                Some \<lparr>event_id = makeId ts tenant ''restart_instance'', event_type = instance_restarted,
                      event_emoji = glyph_restarted, event_tenant = tenant,
                      event_description = tenant @ ascii '' restarted instance '' @ instanceName,
                      event_timestamp = timestamp\<rparr>
              else if action = ascii ''create:tenant'' then
                Some \<lparr>event_id = makeId ts tenant ''create_tenant'', event_type = tenant_signup,
                      event_emoji = glyph_signup, event_tenant = tenant,
                      event_description = ascii ''New tenant signed up: '' @ tenant,
                      event_timestamp = timestamp\<rparr>
              else if action = ascii ''deploy:solution'' then
                Some \<lparr>event_id = makeId ts tenant ''deploy_solution'', event_type = solution_deployed,
                      event_emoji = glyph_deployed, event_tenant = tenant,
                      event_description = tenant @ ascii '' deployed solution '' @ resource,
                      event_timestamp = timestamp\<rparr>
              else if action = ascii ''delete:solution'' then
                Some \<lparr>event_id = makeId ts tenant ''delete_solution'', event_type = solution_destroyed,
                      event_emoji = glyph_destroyed, event_tenant = tenant,
                      event_description = tenant @ ascii '' destroyed solution '' @ resource,
                      event_timestamp = timestamp\<rparr>
              else None)
      | _ \<Rightarrow> None)"

subsection \<open>The structured lines of the AI manager\<close>

text \<open>
  What \<^verbatim>\<open>JSON.parse\<close> returns. The payload \<open>'n\<close> of a number is left to the runtime,
  which says whether a number is truthy and how it prints. An object is the list of its
  own properties.
\<close>

datatype 'n json =
  JNull | JBool bool | JNum 'n | JStr jsstring | JArr "'n json list"
  | JObj "(jsstring \<times> 'n json) list"

text \<open>
  The functions of the language that the route calls and that are not modelled here:
  \<^verbatim>\<open>JSON.parse\<close> (\<open>None\<close> when it throws), the truth value and the string of a number,
  \<^verbatim>\<open>decodeURIComponent\<close> (\<open>None\<close> when it throws) and \<^verbatim>\<open>new Date(s).getTime()\<close>.
\<close>

record 'n runtime =
  JSON_parse :: "jsstring \<Rightarrow> 'n json option"
  number_truthy :: "'n \<Rightarrow> bool"
  number_string :: "'n \<Rightarrow> jsstring"
  decodeURIComponent :: "jsstring \<Rightarrow> jsstring option"
  Date_parse :: "jsstring \<Rightarrow> jsnum"



text \<open>
  The string of a value in a template literal; \<open>None\<close> is the \<^verbatim>\<open>TypeError\<close> of an object
  whose own property \<^verbatim>\<open>toString\<close> hides the inherited method. An array prints its
  elements separated by commas, \<^verbatim>\<open>null\<close> among them as the empty string.
\<close>

fun to_string :: "'n runtime \<Rightarrow> 'n json \<Rightarrow> jsstring option"
  and join_elements :: "'n runtime \<Rightarrow> 'n json list \<Rightarrow> jsstring option"
  and element_string :: "'n runtime \<Rightarrow> 'n json \<Rightarrow> jsstring option"
where
  "to_string rt JNull = Some (ascii ''null'')"
| "to_string rt (JBool b) = Some (if b then ascii ''true'' else ascii ''false'')"
| "to_string rt (JNum n) = Some (number_string rt n)"
| "to_string rt (JStr s) = Some s"
| "to_string rt (JArr xs) = join_elements rt xs"
| "to_string rt (JObj kvs) =
     (if map_of kvs (ascii ''toString'') = None then Some (ascii ''[object Object]'') else None)"
| "join_elements rt [] = Some []"
| "join_elements rt [x] = element_string rt x"
| "join_elements rt (x # y # ys) =
     (case (element_string rt x, join_elements rt (y # ys)) of
        (Some a, Some b) \<Rightarrow> Some (a @ ascii '','' @ b)
      | _ \<Rightarrow> None)"
| "element_string rt JNull = Some []"
| "element_string rt (JBool b) = to_string rt (JBool b)"
| "element_string rt (JNum n) = to_string rt (JNum n)"
| "element_string rt (JStr s) = to_string rt (JStr s)"
| "element_string rt (JArr xs) = to_string rt (JArr xs)"
| "element_string rt (JObj kvs) = to_string rt (JObj kvs)"









subsection \<open>Queries to the log store\<close>


















subsection \<open>Merging\<close>






subsection \<open>The handler\<close>













subsection \<open>Stores and labels used in the examples\<close>

definition range_labels :: "jsstring list" where
  "range_labels = map fst range_map"

text \<open>A metrics store that answers every query with one unlabelled series whose only
  sample is stamped with the step of the request.\<close>

definition step_echo_store :: "prom_request \<Rightarrow> prom_result reply" where
  "step_echo_store rq =
     Response 200 (Body (ascii ''success'')
       (Some [\<lparr>metric = [], samples = Some [(prom_step rq, ascii ''1'')]\<rparr>]))"


subsection \<open>Notions used to state the properties\<close>

text \<open>
  A metrics store that answers every query with the series \<open>rs\<close>; a raw series of the
  drill-down query, labelled with the name of its controller; the logical name of a
  series; and the sum the specification asks for: all samples of all raw series with the
  logical name \<open>n\<close> at the time \<open>t\<close>.
\<close>

definition store_of :: "prom_result list \<Rightarrow> prom_request \<Rightarrow> prom_result reply" where
  "store_of rs rq = Response 200 (Body (ascii ''success'') (Some rs))"

fun the_int :: "jsnum \<Rightarrow> int" where
  "the_int (Num n) = n"
| "the_int NaN = 0"

definition logical_name :: "prom_result \<Rightarrow> jsstring" where
  "logical_name r = stripRsHash (label r ''created_by_name'')"

definition samples_total :: "(int \<times> jsstring) list \<Rightarrow> int \<Rightarrow> int" where
  "samples_total vs t = (\<Sum>sv\<leftarrow>filter (\<lambda>sv. fst sv = t) vs. the_int (parseInt (snd sv)))"

definition raw_total :: "prom_result list \<Rightarrow> jsstring \<Rightarrow> int \<Rightarrow> int" where
  "raw_total rs n t = (\<Sum>r\<leftarrow>filter (\<lambda>r. logical_name r = n) rs. samples_total (sample_list r) t)"


definition parsable :: "(int \<times> jsstring) list \<Rightarrow> bool" where
  "parsable vs \<longleftrightarrow> list_all (\<lambda>sv. parseInt (snd sv) \<noteq> NaN) vs"


definition cell :: "grouped \<Rightarrow> jsstring \<Rightarrow> int \<Rightarrow> jsnum option" where
  "cell g n t = (case map_of g n of None \<Rightarrow> None | Some m \<Rightarrow> map_of m t)"




definition counts :: "(int \<times> jsstring) list \<Rightarrow> bool" where
  "counts vs \<longleftrightarrow> list_all (\<lambda>sv. parseInt (snd sv) \<noteq> NaN \<and> 0 \<le> the_int (parseInt (snd sv))) vs"








text \<open>A string occurs in a line; the six verbs of the audit lines; the line of the
  example.\<close>

definition occurs :: "jsstring \<Rightarrow> jsstring \<Rightarrow> bool" where
  "occurs p s \<longleftrightarrow> (\<exists>u v. s = u @ p @ v)"

definition gui_actions :: "jsstring list" where
  "gui_actions = map ascii
     [''create:instance'', ''delete:instance'', ''restart:instance'', ''create:tenant'',
      ''deploy:solution'', ''delete:solution'']"

definition audit_line :: jsstring where
  "audit_line = ascii ''customer=acme ... action create:instance on resource couchdb/acme-db-1''"













section \<open>Properties\<close>

subsection \<open>Evaluation rules\<close>

lemma ascii_eval: "ascii [] = []" "ascii (c # cs) = of_char c # ascii cs"
  by (simp_all add: ascii_def)

lemma ascii_Cons_ne [simp]: "ascii (c # cs) \<noteq> []"
  by (simp add: ascii_def)

lemmas num_eval = bit_length.simps to_double_def round_half_even_def quotient_exponent_def
  quotient_significand_def double_quot_floor_def double_quot_ceil_def Let_def

lemmas str_eval = parseInt_def is_space_def is_digit_def digits_value_def

subsection \<open>Ranges and steps\<close>

lemma rangeSeconds_cases:
  "rangeSeconds l =
     (if l = ascii ''1h'' then Secs 3600 else if l = ascii ''6h'' then Secs 21600
      else if l = ascii ''12h'' then Secs 43200 else if l = ascii ''24h'' then Secs 86400
      else if l = ascii ''48h'' then Secs 172800 else if l = ascii ''7d'' then Secs 604800
      else if l \<in> set object_prototype_keys then Inherited_property else Secs 3600)"
  by (simp add: rangeSeconds_def range_map_def ascii_eval)

lemmas route_eval = drilldown_GET_def graph_GET_def promQueryRange_def res_ok_def nowSeconds_def
  or_default_def rangeSeconds_cases object_prototype_keys_def group_result_def label_def
  sample_list_def add_sample_def drilldown_series_def graph_series_def object_entries_def
  number_entries_def is_index_def is_index_key_def has_positive_def is_lower_alnum_def
  drilldown_query_def graph_query_def

text \<open>
  C4. The step of a query follows the fixed policy on the duration of the range: at most
  one hour gives 60 seconds, at most 6 hours 300, at most 24 hours 600, at most 48 hours
  1200, anything longer 3600. The six labels of the interface give the steps 60, 300, 600,
  600, 1200 and 3600; in particular "24h" gives 600 and "7d" gives 3600.
\<close>

theorem step_policy:
  "stepForRange (Secs d) =
     (if d \<le> 1 * 3600 then 60 else if d \<le> 6 * 3600 then 300 else if d \<le> 24 * 3600 then 600
      else if d \<le> 48 * 3600 then 1200 else 3600) \<and>
   map (\<lambda>l. stepForRange (rangeSeconds (ascii l))) [''1h'', ''6h'', ''12h'', ''24h'', ''48h'', ''7d''] =
     [60, 300, 600, 600, 1200, 3600] \<and>
   stepForRange (rangeSeconds (ascii ''24h'')) = 600 \<and>
   stepForRange (rangeSeconds (ascii ''7d'')) = 3600"
  by (simp add: rangeSeconds_cases ascii_eval)

theorem step_policy_witness:
  "stepForRange (Secs 7200) = 300 \<and> stepForRange (rangeSeconds (ascii ''24h'')) = 600"
  using step_policy [of 7200] by simp

lemma rangeSeconds_other:
  "l \<notin> set range_labels \<Longrightarrow> l \<notin> set object_prototype_keys \<Longrightarrow> rangeSeconds l = Secs 3600"
  by (simp add: rangeSeconds_cases range_labels_def range_map_def)

lemma rangeSeconds_1h: "rangeSeconds (ascii ''1h'') = Secs 3600"
  by (simp add: rangeSeconds_cases)

text \<open>A label that names a property of \<^verbatim>\<open>Object.prototype\<close> is not replaced by the
  default: the range is then not a number, the start of the query is \<open>NaN\<close> and the step
  is 3600.\<close>

lemma rangeSeconds_constructor:
  "rangeSeconds (ascii ''constructor'') = Inherited_property \<and>
   stepForRange (rangeSeconds (ascii ''constructor'')) = 3600 \<and>
   range_start now (rangeSeconds (ascii ''constructor'')) = NaN"
  by (simp add: rangeSeconds_cases object_prototype_keys_def ascii_eval)

lemma graph_GET_relabel:
  assumes "l \<noteq> []" "rangeSeconds l = Secs 3600"
  shows "graph_GET fetch now (Some l) =
        map_answer (\<lambda>b. b\<lparr>g_range := l\<rparr>) (graph_GET fetch now (Some (ascii ''1h'')))"
  using assms by (simp add: graph_GET_def or_default_def Let_def rangeSeconds_1h split: sum.splits)

lemma drilldown_GET_relabel:
  assumes "l \<noteq> []" "rangeSeconds l = Secs 3600"
  shows "drilldown_GET fetch now ns (Some l) =
        map_answer (\<lambda>b. b\<lparr>d_range := l\<rparr>) (drilldown_GET fetch now ns (Some (ascii ''1h'')))"
  using assms by (simp add: drilldown_GET_def or_default_def Let_def rangeSeconds_1h
      split: sum.splits option.splits)

lemma graph_GET_default:
  "p = None \<or> p = Some [] \<Longrightarrow> graph_GET fetch now p = graph_GET fetch now (Some (ascii ''1h''))"
  by (auto simp add: graph_GET_def or_default_def)

lemma drilldown_GET_default:
  "p = None \<or> p = Some [] \<Longrightarrow>
     drilldown_GET fetch now ns p = drilldown_GET fetch now ns (Some (ascii ''6h''))"
  by (auto simp add: drilldown_GET_def or_default_def)

text \<open>
  C10, as stated, at a missing range parameter of the drill-down route: the store is asked
  with the step of six hours (300 seconds) and the answer names the range "6h", where the
  range "1h" is asked with the step 60.
\<close>

theorem missing_range_counterexample:
  "drilldown_GET step_echo_store 0 (Some (ascii ''acme'')) None =
     Ok_200 \<lparr>d_series = [\<lparr>key = ascii ''unknown'', data = [\<lparr>time = 300000, pvalue = Num 1\<rparr>]\<rparr>],
             d_namespace = ascii ''acme'', d_range = ascii ''6h''\<rparr> \<and>
   drilldown_GET step_echo_store 0 (Some (ascii ''acme'')) (Some (ascii ''1h'')) =
     Ok_200 \<lparr>d_series = [\<lparr>key = ascii ''unknown'', data = [\<lparr>time = 60000, pvalue = Num 1\<rparr>]\<rparr>],
             d_namespace = ascii ''acme'', d_range = ascii ''1h''\<rparr>"
  by (simp add: step_echo_store_def route_eval str_eval num_eval ascii_eval)

text \<open>
  C10, amended. A range label that is not empty, is none of the six labels and names no
  property of \<^verbatim>\<open>Object.prototype\<close> is read as 3600 seconds with the step 60: both routes
  answer what they answer for "1h", with the label echoed. A missing or empty range
  parameter is "1h" for the graph route and "6h" for the drill-down route. No case returns
  an error on account of the label.
\<close>

theorem unrecognized_range:
  "(l \<noteq> [] \<and> l \<notin> set range_labels \<and> l \<notin> set object_prototype_keys \<longrightarrow>
      rangeSeconds l = Secs 3600 \<and> stepForRange (rangeSeconds l) = 60 \<and>
      graph_GET fetch now (Some l) =
        map_answer (\<lambda>b. b\<lparr>g_range := l\<rparr>) (graph_GET fetch now (Some (ascii ''1h''))) \<and>
      drilldown_GET fetch now ns (Some l) =
        map_answer (\<lambda>b. b\<lparr>d_range := l\<rparr>) (drilldown_GET fetch now ns (Some (ascii ''1h'')))) \<and>
   (p = None \<or> p = Some [] \<longrightarrow>
      graph_GET fetch now p = graph_GET fetch now (Some (ascii ''1h'')) \<and>
      drilldown_GET fetch now ns p = drilldown_GET fetch now ns (Some (ascii ''6h'')))"
  using graph_GET_relabel [of l fetch now] drilldown_GET_relabel [of l fetch now ns]
    graph_GET_default [of p fetch now] drilldown_GET_default [of p fetch now ns]
    rangeSeconds_other [of l]
  by auto

theorem unrecognized_range_witness:
  "ascii ''2w'' \<noteq> [] \<and> ascii ''2w'' \<notin> set range_labels \<and>
   ascii ''2w'' \<notin> set object_prototype_keys \<and>
   rangeSeconds (ascii ''2w'') = Secs 3600 \<and> stepForRange (rangeSeconds (ascii ''2w'')) = 60 \<and>
   graph_GET step_echo_store 0 None = graph_GET step_echo_store 0 (Some (ascii ''1h''))"
  using unrecognized_range [of "ascii ''2w''" step_echo_store 0 "Some (ascii ''acme'')" None]
  by (simp add: range_labels_def range_map_def object_prototype_keys_def ascii_eval)


subsection \<open>Series of the graph and of the drill-down\<close>

lemma promQueryRange_store [simp]: "promQueryRange (store_of rs) q s e st = Inr rs"
  by (simp add: promQueryRange_def store_of_def res_ok_def)




lemma set_number_entries [simp]: "set (number_entries m) = set m"
  by (auto simp add: number_entries_def)




lemma key_drilldown_series [simp]: "key (drilldown_series e) = fst e"
  by (cases e) (simp add: drilldown_series_def)



















lemma raw_total_Nil [simp]: "raw_total [] n t = 0"
  by (simp add: raw_total_def)







lemma cell_Nil [simp]: "cell [] n t = None" by (simp add: cell_def)





lemma counts_parsable: "counts vs \<Longrightarrow> parsable vs"
  by (simp add: counts_def parsable_def list_all_iff)
















subsection \<open>Merging and removing duplicates\<close>













lemma find_same:
  "find P xs = Some e \<Longrightarrow> (\<forall>x\<in>set xs. P x \<longrightarrow> R x) \<Longrightarrow> find (\<lambda>x. P x \<and> R x) xs = Some e"
  by (induction xs) (auto split: if_splits)









subsection \<open>Audit lines of the GUI\<close>

lemmas gui_eval = parseGUIAuditLine_def action_at_def strip_prefix_def non_space_def strip_quotes_def
  second_part_def millis_def makeId_def

lemma strip_prefix_Some: "strip_prefix p s = Some r \<Longrightarrow> s = p @ r"
  by (auto simp add: strip_prefix_def split: if_splits) (metis append_take_drop_id)

lemma occurs_Cons: "occurs p s \<Longrightarrow> occurs p (c # s)"
  unfolding occurs_def by (metis append_Cons)

lemma occurs_prefix: "strip_prefix p s = Some r \<Longrightarrow> occurs p s"
  unfolding occurs_def using strip_prefix_Some by (metis append_Nil)

lemma match_customer_occurs: "match_customer s = Some t \<Longrightarrow> occurs (ascii ''customer='') s"
  by (induction s) (auto split: option.splits if_splits intro: occurs_Cons occurs_prefix)

lemma occurs_append: "occurs p s \<Longrightarrow> occurs p (u @ s)"
  unfolding occurs_def by (metis append.assoc)

lemma action_at_occurs:
  assumes "action_at s = Some m"
  shows "occurs (ascii ''action '') s \<and> occurs (ascii '' on resource '') s"
proof -
  from assms obtain r1 where r1: "strip_prefix (ascii ''action '') s = Some r1"
    by (auto simp add: action_at_def split: option.splits)
  with assms obtain r2 where
    r2: "strip_prefix (ascii '' on resource '') (dropWhile non_space r1) = Some r2"
    by (auto simp add: action_at_def split: option.splits if_splits)
  have "occurs (ascii '' on resource '') (dropWhile non_space r1)"
    using r2 by (rule occurs_prefix)
  then have "occurs (ascii '' on resource '') (takeWhile non_space r1 @ dropWhile non_space r1)"
    by (rule occurs_append)
  then have "occurs (ascii '' on resource '') r1" by simp
  then have "occurs (ascii '' on resource '') (ascii ''action '' @ r1)"
    by (rule occurs_append)
  then show ?thesis
    using r1 occurs_prefix [OF r1] strip_prefix_Some [OF r1] by simp
qed

lemma match_action_occurs:
  "match_action s = Some m \<Longrightarrow> occurs (ascii ''action '') s \<and> occurs (ascii '' on resource '') s"
proof (induction s)
  case Nil
  then show ?case by simp
next
  case (Cons c s)
  show ?case
  proof (cases "action_at (c # s)")
    case None
    then have "match_action s = Some m" using Cons.prems by simp
    then show ?thesis using Cons.IH by (auto intro: occurs_Cons)
  next
    case (Some a)
    then show ?thesis using action_at_occurs by blast
  qed
qed

lemma split_slash_ne: "split_slash s \<noteq> []"
  by (induction s) (auto split: list.splits)

text \<open>
  The other parts of C2: a line without \<open>customer=\<close>, without \<open>action\<close> or without
  \<open>on resource\<close> gives no event, neither does a line that the two patterns do not match
  or a verb outside the six; every other line gives an event for the customer, with the
  timestamp \<^verbatim>\<open>Math.floor(parseInt(ts, 10) / 1_000_000)\<close>.
\<close>

lemma parseGUIAuditLine_outcomes:
  "(\<not> occurs (ascii ''customer='') line \<or> \<not> occurs (ascii ''action '') line \<or>
    \<not> occurs (ascii '' on resource '') line \<longrightarrow> parseGUIAuditLine ts line = None) \<and>
   (match_customer line = None \<or> match_action line = None \<longrightarrow> parseGUIAuditLine ts line = None) \<and>
   (match_customer line = Some tenant \<and> match_action line = Some (action, res) \<longrightarrow>
      (action \<notin> set gui_actions \<longrightarrow> parseGUIAuditLine ts line = None) \<and>
      (action \<in> set gui_actions \<longrightarrow>
         (\<exists>e. parseGUIAuditLine ts line = Some e \<and> event_tenant e = tenant \<and>
              event_timestamp e = floor_div (parseInt ts) 1000000)))"
proof -
  have a: "parseGUIAuditLine ts line = None"
    if "match_customer line = None \<or> match_action line = None"
    using that by (auto simp add: parseGUIAuditLine_def split: option.splits)
  have b: "match_customer line = None \<or> match_action line = None"
    if "\<not> occurs (ascii ''customer='') line \<or> \<not> occurs (ascii ''action '') line \<or>
        \<not> occurs (ascii '' on resource '') line"
    using that match_customer_occurs [of line] match_action_occurs [of line]
    by (cases "match_customer line"; cases "match_action line") auto
  have c: "parseGUIAuditLine ts line = None"
    if "match_customer line = Some tenant" "match_action line = Some (action, res)"
      "action \<notin> set gui_actions"
    using that by (simp add: parseGUIAuditLine_def gui_actions_def Let_def)
  have d: "\<exists>e. parseGUIAuditLine ts line = Some e \<and> event_tenant e = tenant \<and>
              event_timestamp e = floor_div (parseInt ts) 1000000"
    if "match_customer line = Some tenant" "match_action line = Some (action, res)"
      "action \<in> set gui_actions"
    using that by (auto simp add: parseGUIAuditLine_def gui_actions_def Let_def millis_def)
  show ?thesis using a [OF b] a c d by (intro conjI impI) (simp_all del: ex_simps)
qed

lemma audit_line_example:
  "parseGUIAuditLine (ascii ''1700000000000000000'') audit_line =
   Some \<lparr>event_id = ascii ''1700000000000000000-acme-create_instance'', event_type = instance_created,
         event_emoji = glyph_created, event_tenant = ascii ''acme'',
         event_description = ascii ''acme created instance acme-db-1 (couchdb)'',
         event_timestamp = Num 1700000000000\<rparr>"
  by (simp add: audit_line_def gui_eval str_eval num_eval ascii_eval)

text \<open>
  C2 at the stamp 1700000000000999999 of the example line: \<^verbatim>\<open>parseInt\<close> rounds the stamp
  to the double 1700000000000999936, the quotient by 1000000 rounds to 1700000000001, and
  the event carries that timestamp, where the integer quotient is 1700000000000.
\<close>

theorem gui_timestamp_rounding:
  "map_option event_timestamp (parseGUIAuditLine (ascii ''1700000000000999999'') audit_line) =
     Some (Num 1700000000001) \<and>
   (1700000000000999999 :: int) div 1000000 = 1700000000000 \<and>
   parseInt (ascii ''1700000000000999999'') = Num 1700000000000999936"
  by (simp add: audit_line_def gui_eval str_eval num_eval ascii_eval)


subsection \<open>Structured lines of the AI manager\<close>






subsection \<open>The paginated mode\<close>











subsection \<open>Queries that fail\<close>









end
